theory Spec2Isabelle
  imports Complex_Main
begin

section \<open>Strings of the host language\<close>

text \<open>
  A string of the program is a sequence of UTF-16 code units; \<open>length\<close> counts code
  units, as the \<open>length\<close> property of the source language does. ASCII literals are
  written \<open>js ''...''\<close>.

  Case mapping (\<open>toLowerCase\<close>, \<open>toUpperCase\<close>) is modelled on the ASCII letters;
  every other code unit is mapped to itself.
\<close>

type_synonym jsstring = "nat list"

definition js :: "string \<Rightarrow> jsstring" where
  "js s = map of_char s"

definition isUpperAZ :: "nat \<Rightarrow> bool" where
  "isUpperAZ c \<longleftrightarrow> 65 \<le> c \<and> c \<le> 90"

definition isLowerAZ :: "nat \<Rightarrow> bool" where
  "isLowerAZ c \<longleftrightarrow> 97 \<le> c \<and> c \<le> 122"

definition isDigit :: "nat \<Rightarrow> bool" where
  "isDigit c \<longleftrightarrow> 48 \<le> c \<and> c \<le> 57"

text \<open>The class \<open>\w\<close>: \<open>[A-Za-z0-9_]\<close>.\<close>

definition isWordChar :: "nat \<Rightarrow> bool" where
  "isWordChar c \<longleftrightarrow> isUpperAZ c \<or> isLowerAZ c \<or> isDigit c \<or> c = 95"

text \<open>The class \<open>\s\<close>, which is also what \<open>trim\<close> removes: white space and line
  terminators.\<close>

definition isSpace :: "nat \<Rightarrow> bool" where
  "isSpace c \<longleftrightarrow>
     (9 \<le> c \<and> c \<le> 13) \<or> c = 32 \<or> c = 160 \<or> c = 5760 \<or> (8192 \<le> c \<and> c \<le> 8202)
     \<or> c = 8232 \<or> c = 8233 \<or> c = 8239 \<or> c = 8287 \<or> c = 12288 \<or> c = 65279"

definition lowerUnit :: "nat \<Rightarrow> nat" where
  "lowerUnit c = (if isUpperAZ c then c + 32 else c)"

definition upperUnit :: "nat \<Rightarrow> nat" where
  "upperUnit c = (if isLowerAZ c then c - 32 else c)"

definition toLowerCase :: "jsstring \<Rightarrow> jsstring" where
  "toLowerCase s = map lowerUnit s"

definition toUpperCase :: "jsstring \<Rightarrow> jsstring" where
  "toUpperCase s = map upperUnit s"

definition trim :: "jsstring \<Rightarrow> jsstring" where
  "trim s = rev (dropWhile isSpace (rev (dropWhile isSpace s)))"

text \<open>\<open>s.replace(/[C]+/g, rep)\<close> for a character class \<open>C\<close>: every maximal run of
  code units of the class is replaced by \<open>rep\<close>.\<close>

function replaceRuns :: "(nat \<Rightarrow> bool) \<Rightarrow> jsstring \<Rightarrow> jsstring \<Rightarrow> jsstring" where
  "replaceRuns P rep [] = []"
| "replaceRuns P rep (c # cs) =
     (if P c then rep @ replaceRuns P rep (dropWhile P cs) else c # replaceRuns P rep cs)"
  by pat_completeness auto
termination
  by (relation "measure (\<lambda>(P, rep, s). length s)")
     (auto simp: le_imp_less_Suc length_dropWhile_le)

text \<open>\<open>s.replace(/([C])/g, pre + '$1')\<close>: \<open>pre\<close> is inserted before every code unit
  of the class.\<close>

definition insertBefore :: "(nat \<Rightarrow> bool) \<Rightarrow> jsstring \<Rightarrow> jsstring \<Rightarrow> jsstring" where
  "insertBefore P pre s = concat (map (\<lambda>c. if P c then pre @ [c] else [c]) s)"

text \<open>\<open>s.replace(/^c/, '')\<close>: one leading \<open>c\<close> is removed.\<close>

definition stripLeading :: "nat \<Rightarrow> jsstring \<Rightarrow> jsstring" where
  "stripLeading c s = (case s of [] \<Rightarrow> [] | d # ds \<Rightarrow> if d = c then ds else s)"

text \<open>\<open>s.replace(/\b\w/g, ch => ch.toUpperCase())\<close>: a word character is replaced
  by its upper case when the code unit before it is not a word character (or there is
  none). The flag says whether the previous code unit is a word character.\<close>

fun capitalizeWords :: "bool \<Rightarrow> jsstring \<Rightarrow> jsstring" where
  "capitalizeWords prev [] = []"
| "capitalizeWords prev (c # cs) =
     (if isWordChar c \<and> \<not> prev then upperUnit c else c) # capitalizeWords (isWordChar c) cs"

section \<open>Case transformers\<close>

definition toSnakeCase :: "jsstring \<Rightarrow> jsstring" where
  "toSnakeCase input =
     replaceRuns (\<lambda>c. c = 95) [95]
       (stripLeading 95
         (toLowerCase
           (replaceRuns (\<lambda>c. isSpace c \<or> c = 45) [95]
             (insertBefore isUpperAZ [95] input))))"

definition toTitleCase :: "jsstring \<Rightarrow> jsstring" where
  "toTitleCase input =
     trim
       (replaceRuns isSpace [32]
         (capitalizeWords False
           (replaceRuns (\<lambda>c. c = 95 \<or> c = 45) [32] input)))"

definition toKebabCase :: "jsstring \<Rightarrow> jsstring" where
  "toKebabCase input =
     replaceRuns (\<lambda>c. c = 45) [45]
       (stripLeading 45
         (toLowerCase
           (replaceRuns (\<lambda>c. isSpace c \<or> c = 95) [45]
             (insertBefore isUpperAZ [45] input))))"


text \<open>Words joined by a separator, and the shape of a Title Case string: words made of
  one upper-case ASCII letter followed by lower-case ASCII letters.\<close>


fun joinWith :: "jsstring \<Rightarrow> jsstring list \<Rightarrow> jsstring" where
  "joinWith sep [] = []"
| "joinWith sep (w # ws) = w @ concat (map (\<lambda>v. sep @ v) ws)"





section \<open>Regular expressions of the host language\<close>

text \<open>
  The program hands pattern strings to the host's \<open>RegExp\<close> constructor and uses
  \<open>test\<close>, \<open>match\<close> and \<open>replace\<close>. The constructor is not code of the repository; it
  is modelled here for a fragment of the pattern language, with the backtracking
  semantics of the language standard:

  \<^item> alternation, concatenation, the quantifiers \<open>*\<close>, \<open>+\<close>, \<open>?\<close> and their lazy forms;
  \<^item> groups \<open>(...)\<close> (capturing, numbered by their opening parenthesis) and \<open>(?:...)\<close>;
  \<^item> \<open>.\<close>, literal code units, character classes with ranges and negation, the
    escapes \<open>\d \D \w \W \s \S \n \r \t \f \v \0\<close>, escaped punctuation and letters
    that stand for themselves;
  \<^item> the assertions \<open>^\<close>, \<open>$\<close>, \<open>\b\<close>, \<open>\B\<close>;
  \<^item> the flags \<open>g\<close>, \<open>i\<close> (folding ASCII letters), \<open>m\<close>, \<open>s\<close> and \<open>d\<close>.

  A pattern that the standard rejects is a \<open>SyntaxError\<close>. A pattern outside the
  fragment (counted repetition \<open>{n,m}\<close>, look-around, back-references, named groups,
  \<open>\x\<close>, \<open>\u\<close>, \<open>\c\<close>, \<open>\p\<close>, the flags \<open>u\<close>, \<open>v\<close>, \<open>y\<close>) is reported as
  \<open>Unsupported\<close>, so that the model gives it no meaning of its own.
\<close>

datatype regexError = SyntaxError string | Unsupported string

datatype regex =
    REmpty
  | RChars "nat \<Rightarrow> bool"
  | RSeq regex regex
  | RAlt regex regex
  | RStar bool regex
  | ROpt bool regex
  | RGroup nat regex
  | RBol bool
  | REol bool
  | RWordB bool

text \<open>A matcher state: the position, the code unit before it, the input from the
  position on, and the captures (group, start, end).\<close>

datatype mstate =
  MState (mpos: nat) (mprev: "nat option") (mrest: jsstring) (mcaps: "(nat \<times> nat \<times> nat) list")

definition isLineTerminator :: "nat \<Rightarrow> bool" where
  "isLineTerminator c \<longleftrightarrow> c = 10 \<or> c = 13 \<or> c = 8232 \<or> c = 8233"

fun groupsOf :: "regex \<Rightarrow> nat list" where
  "groupsOf (RSeq a b) = groupsOf a @ groupsOf b"
| "groupsOf (RAlt a b) = groupsOf a @ groupsOf b"
| "groupsOf (RStar g a) = groupsOf a"
| "groupsOf (ROpt g a) = groupsOf a"
| "groupsOf (RGroup n a) = n # groupsOf a"
| "groupsOf r = []"

text \<open>Every iteration of a quantified term starts with the captures of the groups
  inside the term undefined.\<close>

definition clearCaps :: "regex \<Rightarrow> mstate \<Rightarrow> mstate" where
  "clearCaps a s =
     MState (mpos s) (mprev s) (mrest s) (filter (\<lambda>e. fst e \<notin> set (groupsOf a)) (mcaps s))"

definition setCap :: "nat \<Rightarrow> nat \<Rightarrow> mstate \<Rightarrow> mstate" where
  "setCap n start s =
     MState (mpos s) (mprev s) (mrest s)
       ((n, start, mpos s) # filter (\<lambda>e. fst e \<noteq> n) (mcaps s))"

definition atWordBoundary :: "mstate \<Rightarrow> bool" where
  "atWordBoundary s \<longleftrightarrow>
     (case mprev s of None \<Rightarrow> False | Some c \<Rightarrow> isWordChar c)
     \<noteq> (case mrest s of [] \<Rightarrow> False | c # cs \<Rightarrow> isWordChar c)"

text \<open>
  \<open>matchL r s\<close> lists the states in which a match of \<open>r\<close> started in \<open>s\<close> can end, in
  the order in which backtracking tries them; the first one that lets the rest of the
  pattern succeed is the match. An iteration of \<open>*\<close> or \<open>?\<close> that consumes nothing is
  rejected, as the standard says.
\<close>

function matchL :: "regex \<Rightarrow> mstate \<Rightarrow> mstate list" where
  "matchL REmpty s = [s]"
| "matchL (RChars C) s =
     (case mrest s of
        [] \<Rightarrow> []
      | c # cs \<Rightarrow> if C c then [MState (mpos s + 1) (Some c) cs (mcaps s)] else [])"
| "matchL (RSeq a b) s = concat (map (matchL b) (matchL a s))"
| "matchL (RAlt a b) s = matchL a s @ matchL b s"
| "matchL (RStar g a) s =
     (if g
      then concat (map (\<lambda>t. if length (mrest t) < length (mrest s)
                              then matchL (RStar g a) t else [])
                       (matchL a (clearCaps a s))) @ [s]
      else s # concat (map (\<lambda>t. if length (mrest t) < length (mrest s)
                                  then matchL (RStar g a) t else [])
                           (matchL a (clearCaps a s))))"
| "matchL (ROpt g a) s =
     (if g
      then filter (\<lambda>t. length (mrest t) < length (mrest s)) (matchL a (clearCaps a s)) @ [s]
      else s # filter (\<lambda>t. length (mrest t) < length (mrest s)) (matchL a (clearCaps a s)))"
| "matchL (RGroup n a) s = map (setCap n (mpos s)) (matchL a s)"
| "matchL (RBol multi) s =
     (case mprev s of
        None \<Rightarrow> [s]
      | Some c \<Rightarrow> if multi \<and> isLineTerminator c then [s] else [])"
| "matchL (REol multi) s =
     (case mrest s of
        [] \<Rightarrow> [s]
      | c # cs \<Rightarrow> if multi \<and> isLineTerminator c then [s] else [])"
| "matchL (RWordB neg) s = (if atWordBoundary s \<noteq> neg then [s] else [])"
  by pat_completeness auto
termination
  by (relation "inv_image (less_than <*lex*> less_than) (\<lambda>(r, s). (size r, length (mrest s)))")
     (auto simp: clearCaps_def)

text \<open>A compiled regular expression: the term, the number of capturing groups and the
  \<open>global\<close> flag.\<close>

record RegExp =
  source_re :: regex
  groupCount :: nat
  global :: bool

text \<open>A match: where it starts and the state in which it ends.\<close>

type_synonym rmatch = "nat \<times> mstate"

text \<open>The search of \<open>exec\<close>: the first position, from the given one on, at which the
  pattern matches.\<close>

fun searchFrom :: "regex \<Rightarrow> nat \<Rightarrow> nat option \<Rightarrow> jsstring \<Rightarrow> rmatch option" where
  "searchFrom r p pv [] =
     (case matchL r (MState p pv [] []) of [] \<Rightarrow> None | t # ts \<Rightarrow> Some (p, t))"
| "searchFrom r p pv (c # cs) =
     (case matchL r (MState p pv (c # cs) []) of
        [] \<Rightarrow> searchFrom r (p + 1) (Some c) cs
      | t # ts \<Rightarrow> Some (p, t))"

definition RegExp_exec :: "RegExp \<Rightarrow> jsstring \<Rightarrow> rmatch option" where
  "RegExp_exec re input = searchFrom (source_re re) 0 None input"

definition RegExp_test :: "RegExp \<Rightarrow> jsstring \<Rightarrow> bool" where
  "RegExp_test re input \<longleftrightarrow> RegExp_exec re input \<noteq> None"

text \<open>The text of capture \<open>n\<close> of a match; an undefined capture is \<open>None\<close>.\<close>

definition capture :: "jsstring \<Rightarrow> mstate \<Rightarrow> nat \<Rightarrow> jsstring option" where
  "capture input t n =
     (case map_of (mcaps t) n of
        None \<Rightarrow> None
      | Some (a, b) \<Rightarrow> Some (take (b - a) (drop a input)))"

text \<open>
  The replacement template of \<open>replace\<close>: \<open>$$\<close>, \<open>$&\<close>, \<open>$`\<close>, \<open>$'\<close>, \<open>$n\<close> and
  \<open>$nn\<close>. A two-digit reference beyond the number of groups falls back to one digit; a
  reference that names no group stays as it is written.
\<close>

definition captureText :: "jsstring \<Rightarrow> mstate \<Rightarrow> nat \<Rightarrow> jsstring" where
  "captureText input t n = (case capture input t n of None \<Rightarrow> [] | Some x \<Rightarrow> x)"

fun getSubstitution :: "nat \<Rightarrow> jsstring \<Rightarrow> nat \<Rightarrow> mstate \<Rightarrow> jsstring \<Rightarrow> jsstring" where
  "getSubstitution m input start t [] = []"
| "getSubstitution m input start t [c] = [c]"
| "getSubstitution m input start t (c # d # ds) =
     (if c \<noteq> 36 then c # getSubstitution m input start t (d # ds)
      else if d = 36 then 36 # getSubstitution m input start t ds
      else if d = 38 then
        take (mpos t - start) (drop start input) @ getSubstitution m input start t ds
      else if d = 96 then take start input @ getSubstitution m input start t ds
      else if d = 39 then drop (mpos t) input @ getSubstitution m input start t ds
      else if isDigit d then
        (case ds of
           e # es \<Rightarrow>
             if isDigit e \<and> 1 \<le> 10 * (d - 48) + (e - 48) \<and> 10 * (d - 48) + (e - 48) \<le> m
             then captureText input t (10 * (d - 48) + (e - 48))
                    @ getSubstitution m input start t es
             else if isDigit e \<and> 10 * (d - 48) + (e - 48) = 0
             then 36 # d # e # getSubstitution m input start t es
             else if 1 \<le> d - 48 \<and> d - 48 \<le> m
             then captureText input t (d - 48) @ getSubstitution m input start t ds
             else 36 # d # getSubstitution m input start t ds
         | [] \<Rightarrow>
             if 1 \<le> d - 48 \<and> d - 48 \<le> m
             then captureText input t (d - 48)
             else [36, d])
      else 36 # getSubstitution m input start t (d # ds))"

text \<open>
  \<open>input.replace(re, ...)\<close>, one pass over the input. The replacement of a match is
  computed by \<open>sub\<close> from the input, the start of the match and the state at its end.
  \<open>skip\<close> counts the code units of the last match still to be passed over. Without the
  \<open>global\<close> flag only the first match is replaced. With it the search resumes where the
  match ended, and one code unit further on after an empty match.
\<close>

type_synonym replacer = "jsstring \<Rightarrow> nat \<Rightarrow> mstate \<Rightarrow> jsstring"

fun replaceFrom ::
  "RegExp \<Rightarrow> replacer \<Rightarrow> jsstring \<Rightarrow> nat \<Rightarrow> nat \<Rightarrow> nat option \<Rightarrow> jsstring \<Rightarrow> jsstring" where
  "replaceFrom re sub input skip p pv [] =
     (if 0 < skip then []
      else case matchL (source_re re) (MState p pv [] []) of
             [] \<Rightarrow> []
           | t # ts \<Rightarrow> sub input p t)"
| "replaceFrom re sub input skip p pv (c # cs) =
     (if 0 < skip then replaceFrom re sub input (skip - 1) (p + 1) (Some c) cs
      else case matchL (source_re re) (MState p pv (c # cs) []) of
             [] \<Rightarrow> c # replaceFrom re sub input 0 (p + 1) (Some c) cs
           | t # ts \<Rightarrow>
               sub input p t
               @ (if \<not> global re then drop (mpos t - p) (c # cs)
                  else if mpos t = p
                  then c # replaceFrom re sub input 0 (p + 1) (Some c) cs
                  else replaceFrom re sub input (mpos t - p - 1) (p + 1) (Some c) cs))"

text \<open>Replacement by a template string, and by a function of the match.\<close>

definition String_replace :: "jsstring \<Rightarrow> RegExp \<Rightarrow> jsstring \<Rightarrow> jsstring" where
  "String_replace input re template =
     replaceFrom re (\<lambda>inp p t. getSubstitution (groupCount re) inp p t template)
       input 0 0 None input"

definition String_replaceFn :: "jsstring \<Rightarrow> RegExp \<Rightarrow> replacer \<Rightarrow> jsstring" where
  "String_replaceFn input re sub = replaceFrom re sub input 0 0 None input"

subsection \<open>Compiling a pattern string\<close>

text \<open>The flags: a string over \<open>dgimsuvy\<close> without repetition.\<close>

record pflags =
  ignoreCase :: bool
  multiline :: bool
  dotAll :: bool
  globalFlag :: bool

definition parseFlags :: "jsstring \<Rightarrow> regexError + pflags" where
  "parseFlags fs =
     (if \<not> list_all (\<lambda>c. c \<in> set [100, 103, 105, 109, 115, 117, 118, 121]) fs \<or> \<not> distinct fs
      then Inl (SyntaxError ''Invalid flags'')
      else if 117 \<in> set fs \<or> 118 \<in> set fs \<or> 121 \<in> set fs
      then Inl (Unsupported ''flags u, v, y'')
      else Inr \<lparr>ignoreCase = (105 \<in> set fs), multiline = (109 \<in> set fs),
                dotAll = (115 \<in> set fs), globalFlag = (103 \<in> set fs)\<rparr>)"

text \<open>With the flag \<open>i\<close> a code unit belongs to a set when one of its two cases does.\<close>

definition foldCase :: "pflags \<Rightarrow> (nat \<Rightarrow> bool) \<Rightarrow> (nat \<Rightarrow> bool)" where
  "foldCase fl C = (if ignoreCase fl then (\<lambda>c. C (upperUnit c) \<or> C (lowerUnit c)) else C)"

text \<open>
  The parser reads the pattern once from left to right. A frame is an open group (or the
  whole pattern): its capture number, the alternatives already closed by \<open>|\<close>, the terms
  of the current alternative, and the last term, which a quantifier may still follow.
\<close>

datatype lastTerm =
    LNone
  | LAtom regex
  | LGreedy nat regex
  | LFixed regex

datatype frame =
  Frame (fcap: "nat option") (falts: "regex list") (fseq: "regex list") (flast: lastTerm)

definition mkQuant :: "nat \<Rightarrow> bool \<Rightarrow> regex \<Rightarrow> regex" where
  "mkQuant q g r =
     (if q = 42 then RStar g r else if q = 43 then RSeq r (RStar g r) else ROpt g r)"

definition flushLast :: "frame \<Rightarrow> regex list" where
  "flushLast f =
     fseq f @ (case flast f of
                 LNone \<Rightarrow> []
               | LAtom r \<Rightarrow> [r]
               | LGreedy q r \<Rightarrow> [mkQuant q True r]
               | LFixed r \<Rightarrow> [r])"

definition pushTerm :: "frame \<Rightarrow> lastTerm \<Rightarrow> frame" where
  "pushTerm f t = Frame (fcap f) (falts f) (flushLast f) t"

definition seqOf :: "regex list \<Rightarrow> regex" where
  "seqOf ts = foldr RSeq ts REmpty"

fun altOf :: "regex list \<Rightarrow> regex" where
  "altOf [] = REmpty"
| "altOf [a] = a"
| "altOf (a # b # bs) = RAlt a (altOf (b # bs))"

definition nextAlt :: "frame \<Rightarrow> frame" where
  "nextAlt f = Frame (fcap f) (falts f @ [seqOf (flushLast f)]) [] LNone"

definition closeFrame :: "frame \<Rightarrow> regex" where
  "closeFrame f =
     (case fcap f of
        None \<Rightarrow> altOf (falts f @ [seqOf (flushLast f)])
      | Some n \<Rightarrow> RGroup n (altOf (falts f @ [seqOf (flushLast f)])))"

text \<open>A quantifier needs an atom before it; \<open>?\<close> after a quantifier makes it lazy.\<close>

definition quantify :: "nat \<Rightarrow> frame \<Rightarrow> frame option" where
  "quantify q f =
     (case flast f of
        LAtom r \<Rightarrow> Some (Frame (fcap f) (falts f) (fseq f) (LGreedy q r))
      | LGreedy q' r \<Rightarrow>
          if q = 63 then Some (Frame (fcap f) (falts f) (fseq f) (LFixed (mkQuant q' False r)))
          else None
      | LNone \<Rightarrow> None
      | LFixed r \<Rightarrow> None)"

definition litChar :: "pflags \<Rightarrow> nat \<Rightarrow> lastTerm" where
  "litChar fl c = LAtom (RChars (foldCase fl (\<lambda>x. x = c)))"

text \<open>The term after a backslash, outside a character class.\<close>

definition escapeTerm :: "pflags \<Rightarrow> nat \<Rightarrow> jsstring \<Rightarrow> regexError + lastTerm" where
  "escapeTerm fl d ds =
     (if d = 100 then Inr (LAtom (RChars isDigit))
      else if d = 68 then Inr (LAtom (RChars (\<lambda>x. \<not> isDigit x)))
      else if d = 119 then Inr (LAtom (RChars isWordChar))
      else if d = 87 then Inr (LAtom (RChars (\<lambda>x. \<not> isWordChar x)))
      else if d = 115 then Inr (LAtom (RChars isSpace))
      else if d = 83 then Inr (LAtom (RChars (\<lambda>x. \<not> isSpace x)))
      else if d = 98 then Inr (LFixed (RWordB False))
      else if d = 66 then Inr (LFixed (RWordB True))
      else if d = 110 then Inr (litChar fl 10)
      else if d = 114 then Inr (litChar fl 13)
      else if d = 116 then Inr (litChar fl 9)
      else if d = 102 then Inr (litChar fl 12)
      else if d = 118 then Inr (litChar fl 11)
      else if d = 48 then
        (case ds of
           [] \<Rightarrow> Inr (litChar fl 0)
         | e # es \<Rightarrow> if isDigit e then Inl (Unsupported ''octal escape'') else Inr (litChar fl 0))
      else if isDigit d then Inl (Unsupported ''back-reference'')
      else if d = 99 \<or> d = 120 \<or> d = 117 \<or> d = 107 \<or> d = 112 \<or> d = 80
      then Inl (Unsupported ''escape'')
      else Inr (litChar fl d))"

text \<open>Inside a character class: what has been read since the last complete item.\<close>

datatype cpend = PNone | PChar nat | PDash nat | PSet | PSetDash

datatype catom = CChar nat | CSet "nat \<Rightarrow> bool" | CBad regexError

definition classEscape :: "nat \<Rightarrow> jsstring \<Rightarrow> catom" where
  "classEscape d ds =
     (if d = 100 then CSet isDigit
      else if d = 68 then CSet (\<lambda>x. \<not> isDigit x)
      else if d = 119 then CSet isWordChar
      else if d = 87 then CSet (\<lambda>x. \<not> isWordChar x)
      else if d = 115 then CSet isSpace
      else if d = 83 then CSet (\<lambda>x. \<not> isSpace x)
      else if d = 98 then CChar 8
      else if d = 110 then CChar 10
      else if d = 114 then CChar 13
      else if d = 116 then CChar 9
      else if d = 102 then CChar 12
      else if d = 118 then CChar 11
      else if d = 48 then
        (case ds of
           [] \<Rightarrow> CChar 0
         | e # es \<Rightarrow> if isDigit e then CBad (Unsupported ''octal escape'') else CChar 0)
      else if isDigit d then CBad (Unsupported ''octal escape'')
      else if d = 99 \<or> d = 120 \<or> d = 117 \<or> d = 107 \<or> d = 112 \<or> d = 80
      then CBad (Unsupported ''escape'')
      else CChar d)"

definition addAtom ::
  "(nat \<Rightarrow> bool) \<Rightarrow> cpend \<Rightarrow> catom \<Rightarrow> regexError + ((nat \<Rightarrow> bool) \<times> cpend)" where
  "addAtom acc pend a =
     (case a of
        CBad e \<Rightarrow> Inl e
      | CChar c \<Rightarrow>
          (case pend of
             PNone \<Rightarrow> Inr (acc, PChar c)
           | PSet \<Rightarrow> Inr (acc, PChar c)
           | PChar b \<Rightarrow> Inr (\<lambda>x. acc x \<or> x = b, PChar c)
           | PDash b \<Rightarrow>
               if b \<le> c then Inr (\<lambda>x. acc x \<or> (b \<le> x \<and> x \<le> c), PNone)
               else Inl (SyntaxError ''Range out of order in character class'')
           | PSetDash \<Rightarrow> Inl (Unsupported ''class escape in a range''))
      | CSet S \<Rightarrow>
          (case pend of
             PNone \<Rightarrow> Inr (\<lambda>x. acc x \<or> S x, PSet)
           | PSet \<Rightarrow> Inr (\<lambda>x. acc x \<or> S x, PSet)
           | PChar b \<Rightarrow> Inr (\<lambda>x. acc x \<or> x = b \<or> S x, PSet)
           | PDash b \<Rightarrow> Inl (Unsupported ''class escape in a range'')
           | PSetDash \<Rightarrow> Inl (Unsupported ''class escape in a range'')))"

definition finishClass :: "(nat \<Rightarrow> bool) \<Rightarrow> cpend \<Rightarrow> (nat \<Rightarrow> bool)" where
  "finishClass acc pend =
     (case pend of
        PNone \<Rightarrow> acc
      | PSet \<Rightarrow> acc
      | PChar b \<Rightarrow> (\<lambda>x. acc x \<or> x = b)
      | PDash b \<Rightarrow> (\<lambda>x. acc x \<or> x = b \<or> x = 45)
      | PSetDash \<Rightarrow> (\<lambda>x. acc x \<or> x = 45))"

text \<open>A \<open>-\<close> after a single code unit may begin a range.\<close>

definition dashPend :: "cpend \<Rightarrow> cpend option" where
  "dashPend pend =
     (case pend of
        PChar b \<Rightarrow> Some (PDash b)
      | PSet \<Rightarrow> Some PSetDash
      | PNone \<Rightarrow> None
      | PDash b \<Rightarrow> None
      | PSetDash \<Rightarrow> None)"

definition classTerm :: "pflags \<Rightarrow> bool \<Rightarrow> (nat \<Rightarrow> bool) \<Rightarrow> cpend \<Rightarrow> lastTerm" where
  "classTerm fl neg acc pend =
     LAtom (RChars (if neg then (\<lambda>x. \<not> foldCase fl (finishClass acc pend) x)
                    else foldCase fl (finishClass acc pend)))"

fun parseP ::
      "pflags \<Rightarrow> nat \<Rightarrow> frame \<Rightarrow> frame list \<Rightarrow> jsstring \<Rightarrow> regexError + (regex \<times> nat)"
  and parseClass ::
      "pflags \<Rightarrow> nat \<Rightarrow> frame \<Rightarrow> frame list \<Rightarrow> bool \<Rightarrow> (nat \<Rightarrow> bool) \<Rightarrow> cpend \<Rightarrow> jsstring
       \<Rightarrow> regexError + (regex \<times> nat)" where
  "parseP fl n cur st [] =
     (case st of
        [] \<Rightarrow> Inr (closeFrame cur, n)
      | g # gs \<Rightarrow> Inl (SyntaxError ''Unterminated group''))"
| "parseP fl n cur st (c # cs) =
     (if c = 40 then
        (case cs of
           [] \<Rightarrow> Inl (SyntaxError ''Unterminated group'')
         | d # ds \<Rightarrow>
             if d = 63 then
               (case ds of
                  [] \<Rightarrow> Inl (SyntaxError ''Invalid group'')
                | e # es \<Rightarrow>
                    if e = 58 then parseP fl n (Frame None [] [] LNone) (cur # st) es
                    else Inl (Unsupported ''group''))
             else parseP fl (n + 1) (Frame (Some (n + 1)) [] [] LNone) (cur # st) (d # ds))
      else if c = 41 then
        (case st of
           [] \<Rightarrow> Inl (SyntaxError ''Unmatched )'')
         | g # gs \<Rightarrow> parseP fl n (pushTerm g (LAtom (closeFrame cur))) gs cs)
      else if c = 124 then parseP fl n (nextAlt cur) st cs
      else if c = 42 \<or> c = 43 \<or> c = 63 then
        (case quantify c cur of
           None \<Rightarrow> Inl (SyntaxError ''Nothing to repeat'')
         | Some f \<Rightarrow> parseP fl n f st cs)
      else if c = 123 then Inl (Unsupported ''brace'')
      else if c = 91 then
        (case cs of
           [] \<Rightarrow> Inl (SyntaxError ''Unterminated character class'')
         | d # ds \<Rightarrow>
             if d = 94 then parseClass fl n cur st True (\<lambda>x. False) PNone ds
             else parseClass fl n cur st False (\<lambda>x. False) PNone (d # ds))
      else if c = 92 then
        (case cs of
           [] \<Rightarrow> Inl (SyntaxError ''Backslash at end of pattern'')
         | d # ds \<Rightarrow>
             (case escapeTerm fl d ds of
                Inl e \<Rightarrow> Inl e
              | Inr t \<Rightarrow> parseP fl n (pushTerm cur t) st ds))
      else if c = 94 then parseP fl n (pushTerm cur (LFixed (RBol (multiline fl)))) st cs
      else if c = 36 then parseP fl n (pushTerm cur (LFixed (REol (multiline fl)))) st cs
      else if c = 46 then
        parseP fl n
          (pushTerm cur (LAtom (RChars (\<lambda>x. dotAll fl \<or> \<not> isLineTerminator x)))) st cs
      else parseP fl n (pushTerm cur (litChar fl c)) st cs)"
| "parseClass fl n cur st neg acc pend [] =
     Inl (SyntaxError ''Unterminated character class'')"
| "parseClass fl n cur st neg acc pend (c # cs) =
     (if c = 93 then parseP fl n (pushTerm cur (classTerm fl neg acc pend)) st cs
      else if c = 92 then
        (case cs of
           [] \<Rightarrow> Inl (SyntaxError ''Backslash at end of pattern'')
         | d # ds \<Rightarrow>
             (case addAtom acc pend (classEscape d ds) of
                Inl e \<Rightarrow> Inl e
              | Inr (acc', pend') \<Rightarrow> parseClass fl n cur st neg acc' pend' ds))
      else
        (case (if c = 45 then dashPend pend else None) of
           Some p \<Rightarrow> parseClass fl n cur st neg acc p cs
         | None \<Rightarrow>
             (case addAtom acc pend (CChar c) of
                Inl e \<Rightarrow> Inl e
              | Inr (acc', pend') \<Rightarrow> parseClass fl n cur st neg acc' pend' cs)))"

definition RegExp_new :: "jsstring \<Rightarrow> jsstring \<Rightarrow> regexError + RegExp" where
  "RegExp_new pattern flags =
     (case parseFlags flags of
        Inl e \<Rightarrow> Inl e
      | Inr fl \<Rightarrow>
          (case parseP fl 0 (Frame None [] [] LNone) [] pattern of
             Inl e \<Rightarrow> Inl e
           | Inr (r, n) \<Rightarrow> Inr \<lparr>source_re = r, groupCount = n, global = globalFlag fl\<rparr>))"

text \<open>
  A regular expression literal of the source text. In these literals \<open>%\<close> is written for
  the backslash; no pattern of the source contains \<open>%\<close>. The literals of the source all
  compile, so the second branch is never taken.
\<close>

definition jsr :: "string \<Rightarrow> jsstring" where
  "jsr s = map (\<lambda>c. if c = CHR ''%'' then 92 else of_char c) s"

definition regexLiteral :: "string \<Rightarrow> string \<Rightarrow> RegExp" where
  "regexLiteral pattern flags =
     (case RegExp_new (jsr pattern) (js flags) of
        Inr re \<Rightarrow> re
      | Inl e \<Rightarrow> \<lparr>source_re = RChars (\<lambda>x. False), groupCount = 0, global = False\<rparr>)"

section \<open>Regex transformers\<close>

record RegexTransform =
  pattern :: jsstring
  replacement :: jsstring
  flags :: "jsstring option"

text \<open>\<open>transform.flags || 'g'\<close>: an absent or empty flags string gives \<open>g\<close>.\<close>

definition flagsOrDefault :: "jsstring option \<Rightarrow> jsstring" where
  "flagsOrDefault f = (case f of None \<Rightarrow> js ''g'' | Some x \<Rightarrow> if x = [] then js ''g'' else x)"

definition applyRegexTransform :: "jsstring \<Rightarrow> RegexTransform \<Rightarrow> jsstring" where
  "applyRegexTransform input transform =
     (case RegExp_new (pattern transform) (flagsOrDefault (flags transform)) of
        Inr regex \<Rightarrow> String_replace input regex (replacement transform)
      | Inl error \<Rightarrow> input)"

definition applyRegexTransforms :: "jsstring \<Rightarrow> RegexTransform list \<Rightarrow> jsstring" where
  "applyRegexTransforms input transforms = foldl applyRegexTransform input transforms"

definition matchesPattern :: "jsstring \<Rightarrow> jsstring \<Rightarrow> jsstring option \<Rightarrow> bool" where
  "matchesPattern input pat fl =
     (case RegExp_new pat (case fl of None \<Rightarrow> [] | Some f \<Rightarrow> f) of
        Inr regex \<Rightarrow> RegExp_test regex input
      | Inl error \<Rightarrow> False)"

text \<open>The placeholders of \<open>globToRegex\<close>; each starts and ends with the code unit 0.\<close>

definition DOUBLE_STAR_PLACEHOLDER :: jsstring where
  "DOUBLE_STAR_PLACEHOLDER = [0] @ js ''DOUBLESTAR'' @ [0]"

definition PATH_SEG_PLACEHOLDER :: jsstring where
  "PATH_SEG_PLACEHOLDER = [0] @ js ''PATHSEG'' @ [0]"

definition START_PATH_SEG_PLACEHOLDER :: jsstring where
  "START_PATH_SEG_PLACEHOLDER = [0] @ js ''STARTPATHSEG'' @ [0]"

text \<open>\<open>new RegExp(p, 'g')\<close> for a placeholder \<open>p\<close>, which always compiles.\<close>

definition regexOf :: "jsstring \<Rightarrow> jsstring \<Rightarrow> RegExp" where
  "regexOf p f =
     (case RegExp_new p f of
        Inr re \<Rightarrow> re
      | Inl e \<Rightarrow> \<lparr>source_re = RChars (\<lambda>x. False), groupCount = 0, global = False\<rparr>)"

definition globToRegex :: "jsstring \<Rightarrow> jsstring" where
  "globToRegex glob =
     (let regex = glob;
          regex = String_replace regex (regexLiteral ''[.+^${}()|[%]%%]'' ''g'') (jsr ''%$&'');
          regex = String_replace regex (regexLiteral ''%/%*%*%/'' ''g'') PATH_SEG_PLACEHOLDER;
          regex = String_replace regex (regexLiteral ''%/%*%*$'' ''g'')
                    (js ''/'' @ DOUBLE_STAR_PLACEHOLDER);
          regex = String_replace regex (regexLiteral ''^%*%*%/'' ''g'') START_PATH_SEG_PLACEHOLDER;
          regex = String_replace regex (regexLiteral ''%*%*'' ''g'') DOUBLE_STAR_PLACEHOLDER;
          regex = String_replace regex (regexLiteral ''%*'' ''g'') (js ''[^/]*'');
          regex = String_replace regex (regexLiteral ''%?'' ''g'') (js ''.'');
          regex = String_replace regex (regexOf DOUBLE_STAR_PLACEHOLDER (js ''g'')) (js ''.*'');
          regex = String_replace regex (regexOf PATH_SEG_PLACEHOLDER (js ''g'')) (js ''(?:/[^/]+)*/'');
          regex = String_replace regex (regexOf START_PATH_SEG_PLACEHOLDER (js ''g''))
                    (js ''(?:[^/]+/)*'')
      in js ''^'' @ regex @ js ''$'')"

text \<open>\<open>/[*?]/.test(pattern)\<close>.\<close>

definition isGlobPattern :: "jsstring \<Rightarrow> bool" where
  "isGlobPattern pat = list_ex (\<lambda>c. c = 42 \<or> c = 63) pat"

definition patternToRegex :: "jsstring \<Rightarrow> regexError + RegExp" where
  "patternToRegex pat =
     (if isGlobPattern pat then RegExp_new (globToRegex pat) []
      else RegExp_new pat [])"

section \<open>Case transformers, continued\<close>

datatype CaseTransformType =
    CaseNone | SnakeCase | KebabCase | CamelCase | PascalCase | TitleCase | LowerCase | UpperCase

text \<open>The first code unit of the string, through \<open>f\<close>: \<open>s.replace(/^(.)/, f)\<close>.\<close>

definition toCamelCase :: "jsstring \<Rightarrow> jsstring" where
  "toCamelCase input =
     String_replaceFn
       (String_replaceFn input (regexLiteral ''[%s_%-]+(.)'' ''g'')
          (\<lambda>inp p t. toUpperCase (captureText inp t 1)))
       (regexLiteral ''^(.)'' '''')
       (\<lambda>inp p t. toLowerCase (take (mpos t - p) (drop p inp)))"

definition toPascalCase :: "jsstring \<Rightarrow> jsstring" where
  "toPascalCase input =
     String_replaceFn
       (String_replaceFn input (regexLiteral ''[%s_%-]+(.)'' ''g'')
          (\<lambda>inp p t. toUpperCase (captureText inp t 1)))
       (regexLiteral ''^(.)'' '''')
       (\<lambda>inp p t. toUpperCase (take (mpos t - p) (drop p inp)))"

fun applyCaseTransform :: "jsstring \<Rightarrow> CaseTransformType \<Rightarrow> jsstring" where
  "applyCaseTransform input SnakeCase = toSnakeCase input"
| "applyCaseTransform input TitleCase = toTitleCase input"
| "applyCaseTransform input KebabCase = toKebabCase input"
| "applyCaseTransform input CamelCase = toCamelCase input"
| "applyCaseTransform input PascalCase = toPascalCase input"
| "applyCaseTransform input LowerCase = toLowerCase input"
| "applyCaseTransform input UpperCase = toUpperCase input"
| "applyCaseTransform input CaseNone = input"

text \<open>\<open>input.split('/')\<close> and \<open>segments.join('/')\<close>.\<close>

fun splitOn :: "nat \<Rightarrow> jsstring \<Rightarrow> jsstring list" where
  "splitOn sep [] = [[]]"
| "splitOn sep (c # cs) =
     (if c = sep then [] # splitOn sep cs
      else (case splitOn sep cs of
              [] \<Rightarrow> [[c]]
            | w # ws \<Rightarrow> (c # w) # ws))"

definition applyCaseTransformToPath :: "jsstring \<Rightarrow> CaseTransformType \<Rightarrow> jsstring" where
  "applyCaseTransformToPath input transformType =
     joinWith [47] (map (\<lambda>segment. applyCaseTransform segment transformType) (splitOn 47 input))"

section \<open>Emoji transformers\<close>

text \<open>
  \<open>s.replace(/[\u{lo}-\u{hi}]/gu, '')\<close>: with the flag \<open>u\<close> the input is read by code
  points, a high surrogate followed by a low one being one code point.
\<close>

definition isHighSurrogate :: "nat \<Rightarrow> bool" where
  "isHighSurrogate c \<longleftrightarrow> 55296 \<le> c \<and> c \<le> 56319"

definition isLowSurrogate :: "nat \<Rightarrow> bool" where
  "isLowSurrogate c \<longleftrightarrow> 56320 \<le> c \<and> c \<le> 57343"

definition codePoint :: "nat \<Rightarrow> nat \<Rightarrow> nat" where
  "codePoint hi lo = 65536 + (hi - 55296) * 1024 + (lo - 56320)"

fun removeCodePoints :: "nat \<Rightarrow> nat \<Rightarrow> jsstring \<Rightarrow> jsstring" where
  "removeCodePoints a b [] = []"
| "removeCodePoints a b [c] = (if a \<le> c \<and> c \<le> b then [] else [c])"
| "removeCodePoints a b (c # d # ds) =
     (if isHighSurrogate c \<and> isLowSurrogate d
      then (if a \<le> codePoint c d \<and> codePoint c d \<le> b
            then removeCodePoints a b ds
            else c # d # removeCodePoints a b ds)
      else if a \<le> c \<and> c \<le> b then removeCodePoints a b (d # ds)
      else c # removeCodePoints a b (d # ds))"

definition stripEmoji :: "jsstring \<Rightarrow> jsstring" where
  "stripEmoji input =
     trim
       (replaceRuns isSpace [32]
         (removeCodePoints 0x2B00 0x2BFF
         (removeCodePoints 0x1F000 0x1F02F
         (removeCodePoints 0xFE00 0xFE0F
         (removeCodePoints 0x1FA70 0x1FAFF
         (removeCodePoints 0x1FA00 0x1FA6F
         (removeCodePoints 0x1F900 0x1F9FF
         (removeCodePoints 0x2700 0x27BF
         (removeCodePoints 0x2600 0x26FF
         (removeCodePoints 0x1F1E0 0x1F1FF
         (removeCodePoints 0x1F680 0x1F6FF
         (removeCodePoints 0x1F300 0x1F5FF
         (removeCodePoints 0x1F600 0x1F64F input)))))))))))))"

text \<open>\<open>input.replace(/[.:;,?!@\\]/g, '')\<close>.\<close>

definition stripInvalidTagChars :: "jsstring \<Rightarrow> jsstring" where
  "stripInvalidTagChars input =
     filter (\<lambda>c. c \<notin> set [46, 58, 59, 44, 63, 33, 64, 92]) input"

datatype emojiMode = EmojiKeep | EmojiStrip

definition applyEmojiHandling :: "jsstring \<Rightarrow> emojiMode \<Rightarrow> jsstring" where
  "applyEmojiHandling input handling = (if handling = EmojiStrip then stripEmoji input else input)"

section \<open>Number transformers\<close>

record NumberPrefixResult =
  number :: "jsstring option"
  np_name :: jsstring
  fullMatch :: bool

definition extractNumberPrefix :: "jsstring \<Rightarrow> NumberPrefixResult" where
  "extractNumberPrefix input =
     (case RegExp_exec (regexLiteral ''^(%d+)%s*-%s*(.+)$'' '''') input of
        Some (p, t) \<Rightarrow>
          \<lparr>number = Some (captureText input t 1), np_name = trim (captureText input t 2),
           fullMatch = True\<rparr>
      | None \<Rightarrow>
          (case RegExp_exec (regexLiteral ''^(%d+)%.?%s+(.+)$'' '''') input of
             Some (p, t) \<Rightarrow>
               \<lparr>number = Some (captureText input t 1), np_name = trim (captureText input t 2),
                fullMatch = True\<rparr>
           | None \<Rightarrow> \<lparr>number = None, np_name = input, fullMatch = False\<rparr>))"

definition stripNumberPrefix :: "jsstring \<Rightarrow> jsstring" where
  "stripNumberPrefix input = np_name (extractNumberPrefix input)"

datatype numberMode = NumberKeep | NumberStrip | NumberExtract

datatype numberHandled = AsString jsstring | AsResult NumberPrefixResult

fun applyNumberHandling :: "jsstring \<Rightarrow> numberMode \<Rightarrow> numberHandled" where
  "applyNumberHandling input NumberStrip = AsString (stripNumberPrefix input)"
| "applyNumberHandling input NumberExtract = AsResult (extractNumberPrefix input)"
| "applyNumberHandling input NumberKeep = AsString input"

section \<open>Transformation pipeline\<close>

record TransformConfig =
  caseTransform :: "CaseTransformType option"
  emojiHandling :: "emojiMode option"
  numberPrefixHandling :: "numberMode option"
  customTransforms :: "RegexTransform list option"

record PipelineOptions =
  isTagTransform :: "bool option"
  preserveOnError :: "bool option"

text \<open>
  The body of \<open>applyTransformPipeline\<close> is a \<open>try\<close> block of five statements, each of
  which assigns to the variable \<open>result\<close> what a transformer returns, followed by
  \<open>return result.trim()\<close>; the \<open>catch\<close> block returns the input or \<open>result\<close>. An
  exception is a value \<open>Thrown\<close>; a statement takes the value of \<open>result\<close> and gives
  either the exception it throws or the new value of \<open>result\<close>.

  The transformers the statements call are the fields of \<open>stageFns\<close>, so that the
  \<open>catch\<close> block is modelled for transformers that throw as well. The transformers
  of the repository, \<open>sourceStages\<close>, never throw.
\<close>

datatype exn = Thrown string

type_synonym stmt = "jsstring \<Rightarrow> exn + jsstring"

record stageFns =
  fnEmojiHandling :: "jsstring \<Rightarrow> emojiMode \<Rightarrow> exn + jsstring"
  fnStripNumberPrefix :: "jsstring \<Rightarrow> exn + jsstring"
  fnNumberHandling :: "jsstring \<Rightarrow> numberMode \<Rightarrow> exn + numberHandled"
  fnCaseTransformToPath :: "jsstring \<Rightarrow> CaseTransformType \<Rightarrow> exn + jsstring"
  fnRegexTransforms :: "jsstring \<Rightarrow> RegexTransform list \<Rightarrow> exn + jsstring"
  fnStripInvalidTagChars :: "jsstring \<Rightarrow> exn + jsstring"

definition sourceStages :: stageFns where
  "sourceStages =
     \<lparr>fnEmojiHandling = (\<lambda>r h. Inr (applyEmojiHandling r h)),
      fnStripNumberPrefix = (\<lambda>r. Inr (stripNumberPrefix r)),
      fnNumberHandling = (\<lambda>r h. Inr (applyNumberHandling r h)),
      fnCaseTransformToPath = (\<lambda>r t. Inr (applyCaseTransformToPath r t)),
      fnRegexTransforms = (\<lambda>r ts. Inr (applyRegexTransforms r ts)),
      fnStripInvalidTagChars = (\<lambda>r. Inr (stripInvalidTagChars r))\<rparr>"

text \<open>1. Emoji handling, when configured.\<close>

definition emojiStmt :: "stageFns \<Rightarrow> TransformConfig \<Rightarrow> stmt" where
  "emojiStmt fns config result =
     (case emojiHandling config of
        None \<Rightarrow> Inr result
      | Some h \<Rightarrow> fnEmojiHandling fns result h)"

text \<open>2. Number prefix: \<open>strip\<close>, or \<open>extract\<close>, which keeps the name when the
  transformer returns an object with a non-empty name.\<close>

definition numberStmt :: "stageFns \<Rightarrow> TransformConfig \<Rightarrow> stmt" where
  "numberStmt fns config result =
     (case numberPrefixHandling config of
        Some NumberStrip \<Rightarrow> fnStripNumberPrefix fns result
      | Some NumberExtract \<Rightarrow>
          (case fnNumberHandling fns result NumberExtract of
             Inl e \<Rightarrow> Inl e
           | Inr (AsResult extracted) \<Rightarrow>
               if np_name extracted \<noteq> [] then Inr (np_name extracted) else Inr result
           | Inr (AsString s) \<Rightarrow> Inr result)
      | Some NumberKeep \<Rightarrow> Inr result
      | None \<Rightarrow> Inr result)"

text \<open>3. Case transformation, per path segment, unless absent or \<open>none\<close>.\<close>

definition caseStmt :: "stageFns \<Rightarrow> TransformConfig \<Rightarrow> stmt" where
  "caseStmt fns config result =
     (case caseTransform config of
        None \<Rightarrow> Inr result
      | Some t \<Rightarrow> if t \<noteq> CaseNone then fnCaseTransformToPath fns result t else Inr result)"

text \<open>4. Custom regex transformations, when the list is not empty.\<close>

definition regexStmt :: "stageFns \<Rightarrow> TransformConfig \<Rightarrow> stmt" where
  "regexStmt fns config result =
     (case customTransforms config of
        None \<Rightarrow> Inr result
      | Some ts \<Rightarrow> if 0 < length ts then fnRegexTransforms fns result ts else Inr result)"

text \<open>5. Invalid tag characters, for a tag transformation.\<close>

definition tagStmt :: "stageFns \<Rightarrow> PipelineOptions \<Rightarrow> stmt" where
  "tagStmt fns opts result =
     (if isTagTransform opts = Some True then fnStripInvalidTagChars fns result
      else Inr result)"

definition pipelineStmts :: "stageFns \<Rightarrow> TransformConfig \<Rightarrow> PipelineOptions \<Rightarrow> stmt list" where
  "pipelineStmts fns config opts =
     [emojiStmt fns config, numberStmt fns config, caseStmt fns config,
      regexStmt fns config, tagStmt fns opts]"

text \<open>Running the statements: the value of \<open>result\<close> when the block is left, and the
  exception, if one was thrown.\<close>

fun runStmts :: "stmt list \<Rightarrow> jsstring \<Rightarrow> jsstring \<times> exn option" where
  "runStmts [] result = (result, None)"
| "runStmts (s # ss) result =
     (case s result of
        Inl e \<Rightarrow> (result, Some e)
      | Inr result' \<Rightarrow> runStmts ss result')"

definition applyTransformPipelineWith ::
  "stageFns \<Rightarrow> jsstring \<Rightarrow> TransformConfig \<Rightarrow> PipelineOptions \<Rightarrow> jsstring" where
  "applyTransformPipelineWith fns input config opts =
     (case runStmts (pipelineStmts fns config opts) (trim input) of
        (result, None) \<Rightarrow> trim result
      | (result, Some error) \<Rightarrow>
          if preserveOnError opts = Some True then input else result)"

definition applyTransformPipeline ::
  "jsstring \<Rightarrow> TransformConfig \<Rightarrow> PipelineOptions \<Rightarrow> jsstring" where
  "applyTransformPipeline input config opts =
     applyTransformPipelineWith sourceStages input config opts"

definition folderToTagWith :: "stageFns \<Rightarrow> jsstring \<Rightarrow> TransformConfig \<Rightarrow> jsstring" where
  "folderToTagWith fns folderPath config =
     applyTransformPipelineWith fns folderPath config
       \<lparr>isTagTransform = Some True, preserveOnError = None\<rparr>"

definition tagToFolderWith :: "stageFns \<Rightarrow> jsstring \<Rightarrow> TransformConfig \<Rightarrow> jsstring" where
  "tagToFolderWith fns tagName config =
     applyTransformPipelineWith fns tagName config
       \<lparr>isTagTransform = Some False, preserveOnError = None\<rparr>"

definition folderToTag :: "jsstring \<Rightarrow> TransformConfig \<Rightarrow> jsstring" where
  "folderToTag folderPath config = folderToTagWith sourceStages folderPath config"

definition tagToFolder :: "jsstring \<Rightarrow> TransformConfig \<Rightarrow> jsstring" where
  "tagToFolder tagName config = tagToFolderWith sourceStages tagName config"

section \<open>Numbers of the host language\<close>

text \<open>
  A number is a finite value, an infinity or NaN. Finite values are exact rationals:
  the rounding of floating point arithmetic is not modelled. Division by zero and the
  arithmetic of the infinities and of NaN follow the floating point standard.
\<close>

datatype jsnum = Fin rat | PosInf | NegInf | NaN

definition jsDiv :: "nat \<Rightarrow> nat \<Rightarrow> jsnum" where
  "jsDiv a b = (if b = 0 then (if a = 0 then NaN else PosInf) else Fin (of_nat a / of_nat b))"

fun jsAdd :: "jsnum \<Rightarrow> jsnum \<Rightarrow> jsnum" where
  "jsAdd (Fin x) (Fin y) = Fin (x + y)"
| "jsAdd NaN y = NaN"
| "jsAdd x NaN = NaN"
| "jsAdd PosInf NegInf = NaN"
| "jsAdd NegInf PosInf = NaN"
| "jsAdd PosInf y = PosInf"
| "jsAdd x PosInf = PosInf"
| "jsAdd NegInf y = NegInf"
| "jsAdd x NegInf = NegInf"

fun jsNeg :: "jsnum \<Rightarrow> jsnum" where
  "jsNeg (Fin x) = Fin (- x)"
| "jsNeg PosInf = NegInf"
| "jsNeg NegInf = PosInf"
| "jsNeg NaN = NaN"

definition jsSub :: "jsnum \<Rightarrow> jsnum \<Rightarrow> jsnum" where
  "jsSub x y = jsAdd x (jsNeg y)"

text \<open>Multiplication by a finite constant.\<close>

fun jsScale :: "jsnum \<Rightarrow> rat \<Rightarrow> jsnum" where
  "jsScale (Fin x) k = Fin (x * k)"
| "jsScale NaN k = NaN"
| "jsScale PosInf k = (if k = 0 then NaN else if 0 < k then PosInf else NegInf)"
| "jsScale NegInf k = (if k = 0 then NaN else if 0 < k then NegInf else PosInf)"

text \<open>\<open>Math.min\<close> and \<open>Math.max\<close>: NaN when an argument is NaN.\<close>

fun jsMin :: "jsnum \<Rightarrow> jsnum \<Rightarrow> jsnum" where
  "jsMin NaN y = NaN"
| "jsMin x NaN = NaN"
| "jsMin NegInf y = NegInf"
| "jsMin x NegInf = NegInf"
| "jsMin PosInf y = y"
| "jsMin x PosInf = x"
| "jsMin (Fin x) (Fin y) = Fin (min x y)"

fun jsMax :: "jsnum \<Rightarrow> jsnum \<Rightarrow> jsnum" where
  "jsMax NaN y = NaN"
| "jsMax x NaN = NaN"
| "jsMax PosInf y = PosInf"
| "jsMax x PosInf = PosInf"
| "jsMax NegInf y = y"
| "jsMax x NegInf = x"
| "jsMax (Fin x) (Fin y) = Fin (max x y)"

text \<open>\<open>x > 0\<close> and \<open>x \<le> y\<close>; both are false when NaN is involved.\<close>

fun jsPositive :: "jsnum \<Rightarrow> bool" where
  "jsPositive (Fin x) = (0 < x)"
| "jsPositive PosInf = True"
| "jsPositive NegInf = False"
| "jsPositive NaN = False"

fun jsLe :: "jsnum \<Rightarrow> jsnum \<Rightarrow> bool" where
  "jsLe NaN y = False"
| "jsLe x NaN = False"
| "jsLe NegInf y = True"
| "jsLe x PosInf = True"
| "jsLe PosInf y = False"
| "jsLe x NegInf = False"
| "jsLe (Fin x) (Fin y) = (x \<le> y)"

section \<open>Rule matcher\<close>

datatype RuleDirection = FolderToTag | TagToFolder | Bidirectional

text \<open>A mapping rule. The priority is an integer, as the rule editor stores it; the
  behaviour options of a rule are not read by the matcher and are left out.\<close>

record MappingRule =
  rule_id :: jsstring
  rule_name :: jsstring
  description :: "jsstring option"
  enabled :: bool
  priority :: int
  direction :: RuleDirection
  folderPattern :: "jsstring option"
  folderEntryPoint :: "jsstring option"
  folderTransforms :: "TransformConfig option"
  tagPattern :: "jsstring option"
  tagEntryPoint :: "jsstring option"
  tagTransforms :: "TransformConfig option"

datatype MatchType = Folder | Tag

record RuleMatch =
  rule :: MappingRule
  rm_matchType :: MatchType
  matchedPattern :: jsstring
  confidence :: jsnum

record RuleEvaluationContext =
  ctx_input :: jsstring
  matchType :: MatchType
  ctx_direction :: "RuleDirection option"
  includeDisabled :: "bool option"

definition countUnit :: "nat \<Rightarrow> jsstring \<Rightarrow> nat" where
  "countUnit c s = length (filter (\<lambda>x. x = c) s)"

definition calculateMatchConfidence :: "jsstring \<Rightarrow> jsstring \<Rightarrow> jsnum" where
  "calculateMatchConfidence input pat =
     (if pat = input then Fin 1
      else
        let confidence = Fin (1 / 2);
            wildcardCount = countUnit 42 pat;
            questionMarkCount = countUnit 63 pat;
            confidence = jsSub confidence (Fin (of_nat wildcardCount * (1 / 10)));
            confidence = jsSub confidence (Fin (of_nat questionMarkCount * (1 / 20)));
            patternLength = length (filter (\<lambda>c. c \<noteq> 42 \<and> c \<noteq> 63) pat);
            lengthRatio = jsDiv patternLength (length input);
            confidence = jsAdd confidence (jsScale lengthRatio (1 / 5));
            slashCount = countUnit 47 pat;
            confidence = jsAdd confidence (Fin (of_nat slashCount * (1 / 20)))
        in jsMax (Fin 0) (jsMin (Fin 1) confidence))"

text \<open>The pattern a context selects; an empty pattern counts as absent.\<close>

definition selectedPattern :: "MappingRule \<Rightarrow> RuleEvaluationContext \<Rightarrow> jsstring option" where
  "selectedPattern r context =
     (case (if matchType context = Folder then folderPattern r else tagPattern r) of
        None \<Rightarrow> None
      | Some p \<Rightarrow> if p = [] then None else Some p)"

definition evaluateRule ::
  "jsstring \<Rightarrow> MappingRule \<Rightarrow> RuleEvaluationContext \<Rightarrow> RuleMatch option" where
  "evaluateRule input r context =
     (if \<not> enabled r \<and> includeDisabled context \<noteq> Some True then None
      else if (case ctx_direction context of
                 None \<Rightarrow> False
               | Some d \<Rightarrow> direction r \<noteq> Bidirectional \<and> direction r \<noteq> d) then None
      else case selectedPattern r context of
             None \<Rightarrow> None
           | Some pat \<Rightarrow>
               if \<not> matchesPattern input pat None then None
               else Some \<lparr>rule = r, rm_matchType = matchType context, matchedPattern = pat,
                          confidence = calculateMatchConfidence input pat\<rparr>)"

fun findMatchingRules ::
  "jsstring \<Rightarrow> MappingRule list \<Rightarrow> RuleEvaluationContext \<Rightarrow> RuleMatch list" where
  "findMatchingRules input [] context = []"
| "findMatchingRules input (r # rules) context =
     (case evaluateRule input r context of
        None \<Rightarrow> findMatchingRules input rules context
      | Some m \<Rightarrow> m # findMatchingRules input rules context)"

text \<open>
  The comparison function handed to \<open>sort\<close>, and \<open>sort\<close> itself. The standard makes
  \<open>sort\<close> stable, and treats a NaN returned by the comparison as 0; for a consistent
  comparison the result is the one stable sorted arrangement, computed here by
  insertion: an element goes before the first one it does not compare greater than.
\<close>

definition compareMatches :: "RuleMatch \<Rightarrow> RuleMatch \<Rightarrow> jsnum" where
  "compareMatches a b =
     (if priority (rule a) \<noteq> priority (rule b)
      then Fin (of_int (priority (rule a) - priority (rule b)))
      else jsSub (confidence b) (confidence a))"

fun insertSorted :: "('a \<Rightarrow> 'a \<Rightarrow> jsnum) \<Rightarrow> 'a \<Rightarrow> 'a list \<Rightarrow> 'a list" where
  "insertSorted cmp x [] = [x]"
| "insertSorted cmp x (y # ys) =
     (if jsPositive (cmp x y) then y # insertSorted cmp x ys else x # y # ys)"

definition Array_sort :: "('a \<Rightarrow> 'a \<Rightarrow> jsnum) \<Rightarrow> 'a list \<Rightarrow> 'a list" where
  "Array_sort cmp xs = foldr (insertSorted cmp) xs []"

definition findBestMatch ::
  "jsstring \<Rightarrow> MappingRule list \<Rightarrow> RuleEvaluationContext \<Rightarrow> RuleMatch option" where
  "findBestMatch input rules context =
     (let matches = findMatchingRules input rules context
      in if length matches = 0 then None
         else (case Array_sort compareMatches matches of
                 [] \<Rightarrow> None
               | m # ms \<Rightarrow> Some m))"

text \<open>The text of a caught error, as a template literal prints it.\<close>

fun errorText :: "regexError \<Rightarrow> string" where
  "errorText (SyntaxError msg) = ''SyntaxError: '' @ msg"
| "errorText (Unsupported msg) = ''Unsupported: '' @ msg"

text \<open>\<open>!s\<close> for an optional string: absent or empty.\<close>

definition absent :: "jsstring option \<Rightarrow> bool" where
  "absent p = (case p of None \<Rightarrow> True | Some s \<Rightarrow> s = [])"

record ValidationResult =
  valid :: bool
  errors :: "string list"

definition validateRule :: "MappingRule \<Rightarrow> ValidationResult" where
  "validateRule r =
     (let errors = [];
          errors = (if rule_id r = [] \<or> trim (rule_id r) = []
                    then errors @ [''Rule must have a valid ID''] else errors);
          errors = (if rule_name r = [] \<or> trim (rule_name r) = []
                    then errors @ [''Rule must have a name''] else errors);
          errors = (if priority r < 0
                    then errors @ [''Priority must be non-negative''] else errors);
          errors = (if direction r = FolderToTag \<or> direction r = Bidirectional
                    then (if absent (folderPattern r)
                          then errors @ [''Folder-to-tag rules must have a folder pattern'']
                          else errors)
                    else errors);
          errors = (if direction r = TagToFolder \<or> direction r = Bidirectional
                    then (if absent (tagPattern r)
                          then errors @ [''Tag-to-folder rules must have a tag pattern'']
                          else errors)
                    else errors);
          errors = (case folderPattern r of
                      None \<Rightarrow> errors
                    | Some p \<Rightarrow>
                        if p = [] then errors
                        else (case patternToRegex p of
                                Inl error \<Rightarrow>
                                  errors @ [''Invalid folder pattern: '' @ errorText error]
                              | Inr re \<Rightarrow> errors));
          errors = (case tagPattern r of
                      None \<Rightarrow> errors
                    | Some p \<Rightarrow>
                        if p = [] then errors
                        else (case patternToRegex p of
                                Inl error \<Rightarrow>
                                  errors @ [''Invalid tag pattern: '' @ errorText error]
                              | Inr re \<Rightarrow> errors))
      in \<lparr>valid = (length errors = 0), errors = errors\<rparr>)"

section \<open>Notions used in the statements\<close>

text \<open>The regular expression that \<open>globToRegex\<close> produces for a glob, compiled and
  tested against an input.\<close>

definition globRegexMatches :: "jsstring \<Rightarrow> jsstring \<Rightarrow> bool" where
  "globRegexMatches glob input =
     (case RegExp_new (globToRegex glob) [] of
        Inr re \<Rightarrow> RegExp_test re input
      | Inl e \<Rightarrow> False)"

text \<open>The input and the configuration of the pipeline scenario: a folder emoji (U+1F4C1,
  two code units) followed by \<open> 01 - My Cool Project!!!\<close>.\<close>

definition coolProjectInput :: jsstring where
  "coolProjectInput = [0xD83D, 0xDCC1] @ js '' 01 - My Cool Project!!!''"

definition coolProjectConfig :: TransformConfig where
  "coolProjectConfig =
     \<lparr>caseTransform = Some KebabCase, emojiHandling = Some EmojiStrip,
      numberPrefixHandling = Some NumberStrip,
      customTransforms =
        Some [\<lparr>pattern = jsr ''[^a-z0-9%-]'', replacement = [], flags = Some (js ''gi'')\<rparr>]\<rparr>"

text \<open>An enabled bidirectional rule with a folder pattern and a priority, as the tests of
  the repository build them, and the context of a folder match without filters.\<close>

definition folderRule :: "string \<Rightarrow> string \<Rightarrow> int \<Rightarrow> MappingRule" where
  "folderRule ident pat prio =
     \<lparr>rule_id = js ident, rule_name = js ''Test Rule'', description = None, enabled = True,
      priority = prio, direction = Bidirectional, folderPattern = Some (js pat),
      folderEntryPoint = None, folderTransforms = None, tagPattern = None,
      tagEntryPoint = None, tagTransforms = None\<rparr>"

definition folderContext :: "string \<Rightarrow> RuleEvaluationContext" where
  "folderContext input =
     \<lparr>ctx_input = js input, matchType = Folder, ctx_direction = None, includeDisabled = None\<rparr>"


text \<open>The failure of \<open>patternToRegex\<close> on a pattern that is present and not empty.\<close>

definition patternError :: "jsstring option \<Rightarrow> regexError option" where
  "patternError p =
     (case p of
        None \<Rightarrow> None
      | Some s \<Rightarrow>
          if s = [] then None
          else (case patternToRegex s of Inl e \<Rightarrow> Some e | Inr re \<Rightarrow> None))"

text \<open>
  The confidence as the specification words it: 1 when the pattern equals the input;
  otherwise 0.5, minus 0.1 for each \<open>*\<close> and 0.05 for each \<open>?\<close> of the pattern, plus 0.2
  times the number of other pattern characters divided by the length of the input, plus
  0.05 for each \<open>/\<close> of the pattern, clamped to the interval from 0 to 1. The division
  is the division of the host language, as everywhere.
\<close>

definition clamp01 :: "jsnum \<Rightarrow> jsnum" where
  "clamp01 x = jsMax (Fin 0) (jsMin (Fin 1) x)"

definition confidenceSpec :: "jsstring \<Rightarrow> jsstring \<Rightarrow> jsnum" where
  "confidenceSpec input pat =
     (if pat = input then Fin 1
      else clamp01
             (jsAdd
               (Fin (1 / 2 - of_nat (countUnit 42 pat) / 10 - of_nat (countUnit 63 pat) / 20
                     + of_nat (countUnit 47 pat) / 20))
               (jsScale
                 (jsDiv (length (filter (\<lambda>c. c \<noteq> 42 \<and> c \<noteq> 63) pat)) (length input))
                 (1 / 5))))"

text \<open>\<open>a\<close> wins over \<open>b\<close>: a lower priority number, or the same priority and a higher
  confidence.\<close>

definition confOf :: "RuleMatch \<Rightarrow> rat" where
  "confOf m = (case confidence m of Fin q \<Rightarrow> q | PosInf \<Rightarrow> 0 | NegInf \<Rightarrow> 0 | NaN \<Rightarrow> 0)"

definition finiteConf :: "RuleMatch \<Rightarrow> bool" where
  "finiteConf m = (case confidence m of Fin q \<Rightarrow> True | PosInf \<Rightarrow> False | NegInf \<Rightarrow> False | NaN \<Rightarrow> False)"

definition better :: "RuleMatch \<Rightarrow> RuleMatch \<Rightarrow> bool" where
  "better a b \<longleftrightarrow>
     priority (rule a) < priority (rule b)
     \<or> (priority (rule a) = priority (rule b) \<and> confOf b < confOf a)"

text \<open>
  The Title Case form of a string of lower-case letters, spaces and underscores: its
  words (the maximal runs of letters), each with its first letter in upper case, joined
  by single spaces. \<open>scanW\<close> reads the string from the right and gives the word that
  is still open at the front and the words completed behind it.
\<close>

definition isSep :: "nat \<Rightarrow> bool" where
  "isSep c \<longleftrightarrow> c = 32 \<or> c = 95"


definition flush :: "jsstring \<Rightarrow> jsstring list \<Rightarrow> jsstring list" where
  "flush cur ws = (if cur = [] then ws else cur # ws)"








section \<open>Evaluating regular expressions on concrete inputs\<close>

lemmas regex_eval =
  String_replace_def String_replaceFn_def RegExp_exec_def RegExp_test_def capture_def
  captureText_def clearCaps_def setCap_def atWordBoundary_def isLineTerminator_def isDigit_def
  isWordChar_def isUpperAZ_def isLowerAZ_def isSpace_def js_def jsr_def RegExp_new_def
  parseFlags_def foldCase_def mkQuant_def flushLast_def pushTerm_def seqOf_def nextAlt_def
  closeFrame_def quantify_def litChar_def escapeTerm_def classEscape_def addAtom_def
  finishClass_def classTerm_def dashPend_def regexLiteral_def regexOf_def lowerUnit_def
  upperUnit_def

lemmas placeholder_eval =
  DOUBLE_STAR_PLACEHOLDER_def PATH_SEG_PLACEHOLDER_def START_PATH_SEG_PLACEHOLDER_def

section \<open>Facts about the regular expression model\<close>

lemma parseFlags_empty:
  "parseFlags [] =
     Inr \<lparr>ignoreCase = False, multiline = False, dotAll = False, globalFlag = False\<rparr>"
  by (simp add: parseFlags_def)


text \<open>A pattern that begins with \<open>*\<close> or \<open>?\<close> does not compile: there is nothing to
  repeat.\<close>

lemma compile_wildcard_head:
  "c = 42 \<or> c = 63 \<Longrightarrow> RegExp_new (c # cs) [] = Inl (SyntaxError ''Nothing to repeat'')"
  by (auto simp: RegExp_new_def parseFlags_empty quantify_def)

lemma wildcard_only_no_match:
  assumes "pat \<noteq> []" "filter (\<lambda>c. c \<noteq> 42 \<and> c \<noteq> 63) pat = []"
  shows "\<not> matchesPattern input pat None"
proof -
  obtain c cs where p: "pat = c # cs" using assms(1) by (cases pat) auto
  have "c = 42 \<or> c = 63" using assms(2) p by (auto split: if_splits)
  then show ?thesis using compile_wildcard_head[of c cs] p by (simp add: matchesPattern_def)
qed

section \<open>Facts about evaluateRule\<close>

lemma evaluateRule_Some:
  assumes "evaluateRule input r context = Some m"
  shows "\<exists>pat. selectedPattern r context = Some pat \<and> matchesPattern input pat None
           \<and> m = \<lparr>rule = r, rm_matchType = matchType context, matchedPattern = pat,
                    confidence = calculateMatchConfidence input pat\<rparr>"
  using assms by (auto simp: evaluateRule_def split: if_splits option.splits)


lemma selectedPattern_nonempty: "selectedPattern r context = Some pat \<Longrightarrow> pat \<noteq> []"
  by (auto simp: selectedPattern_def split: option.splits if_splits)

lemma confidence_eq_spec: "calculateMatchConfidence input pat = confidenceSpec input pat"
proof (cases "pat = input")
  case True
  then show ?thesis by (simp add: calculateMatchConfidence_def confidenceSpec_def)
next
  case False
  show ?thesis
  proof (cases "length input = 0")
    case z: True
    show ?thesis
      using False z
      by (cases "filter (\<lambda>c. c \<noteq> 42 \<and> c \<noteq> 63) pat = []")
         (simp_all add: calculateMatchConfidence_def confidenceSpec_def Let_def jsSub_def
           jsDiv_def clamp01_def)
  next
    case nz: False
    show ?thesis
      using False nz
      by (simp add: calculateMatchConfidence_def confidenceSpec_def Let_def jsSub_def
          jsDiv_def clamp01_def field_simps)
  qed
qed

text \<open>The confidence is NaN only for an empty input and a pattern made of wildcards.\<close>

lemma confidenceSpec_range:
  assumes "\<not> (input = [] \<and> pat \<noteq> [] \<and> filter (\<lambda>c. c \<noteq> 42 \<and> c \<noteq> 63) pat = [])"
  shows "\<exists>q. confidenceSpec input pat = Fin q \<and> 0 \<le> q \<and> q \<le> 1"
proof (cases "pat = input")
  case True
  then show ?thesis by (simp add: confidenceSpec_def)
next
  case False
  show ?thesis
  proof (cases "length input = 0")
    case z: True
    then have "filter (\<lambda>c. c \<noteq> 42 \<and> c \<noteq> 63) pat \<noteq> []" using assms False by auto
    then show ?thesis using False z
      by (simp add: confidenceSpec_def jsDiv_def clamp01_def)
  next
    case nz: False
    then show ?thesis using False
      by (simp add: confidenceSpec_def jsDiv_def clamp01_def)
  qed
qed

lemma evaluateRule_confidence:
  assumes "evaluateRule input r context = Some m"
  shows "confidence m = confidenceSpec input (matchedPattern m)
         \<and> (\<exists>q. confidence m = Fin q \<and> 0 \<le> q \<and> q \<le> 1)"
proof -
  obtain pat where pat: "selectedPattern r context = Some pat" "matchesPattern input pat None"
    and m: "m = \<lparr>rule = r, rm_matchType = matchType context, matchedPattern = pat,
                 confidence = calculateMatchConfidence input pat\<rparr>"
    using evaluateRule_Some[OF assms] by blast
  have "\<not> (input = [] \<and> pat \<noteq> [] \<and> filter (\<lambda>c. c \<noteq> 42 \<and> c \<noteq> 63) pat = [])"
    using wildcard_only_no_match[OF selectedPattern_nonempty[OF pat(1)], of input] pat(2)
    by blast
  from confidenceSpec_range[OF this] show ?thesis
    by (simp add: m confidence_eq_spec)
qed

lemma evaluateRule_finiteConf:
  assumes "evaluateRule input r context = Some m"
  shows "finiteConf m"
proof -
  obtain q where "confidence m = Fin q" using evaluateRule_confidence[OF assms] by blast
  then show ?thesis by (simp add: finiteConf_def)
qed

section \<open>Facts about findMatchingRules and the sort\<close>

lemma findMatchingRules_set:
  "m \<in> set (findMatchingRules input rules context) \<longleftrightarrow>
   (\<exists>r\<in>set rules. evaluateRule input r context = Some m)"
  by (induction rules) (auto split: option.splits)

lemma findMatchingRules_finiteConf:
  "\<forall>m\<in>set (findMatchingRules input rules context). finiteConf m"
  using findMatchingRules_set evaluateRule_finiteConf by blast



text \<open>On matches with finite confidences the comparison function says that its first
  argument goes after its second exactly when the second wins over the first.\<close>

lemma compare_positive:
  assumes "finiteConf a" "finiteConf b"
  shows "jsPositive (compareMatches a b) \<longleftrightarrow> better b a"
  using assms
  by (auto simp: compareMatches_def better_def finiteConf_def confOf_def jsSub_def
      split: jsnum.splits)

lemma hd_insertSorted:
  "hd (insertSorted cmp x ys) = (if ys \<noteq> [] \<and> jsPositive (cmp x (hd ys)) then hd ys else x)"
  by (cases ys) auto

lemma insertSorted_nonempty: "insertSorted cmp x ys \<noteq> []"
  by (cases ys) auto

lemma Array_sort_nonempty: "xs \<noteq> [] \<Longrightarrow> Array_sort cmp xs \<noteq> []"
  by (cases xs) (auto simp: Array_sort_def insertSorted_nonempty)

lemma Array_sort_Cons: "Array_sort cmp (x # xs) = insertSorted cmp x (Array_sort cmp xs)"
  by (simp add: Array_sort_def)

lemma better_asym: "better a b \<Longrightarrow> \<not> better b a"
  by (auto simp: better_def)

lemma better_irrefl: "\<not> better a a"
  by (simp add: better_def)

lemma better_trans1: "\<not> better b x \<Longrightarrow> better b y \<Longrightarrow> \<not> better y x"
  by (auto simp: better_def)

lemma better_trans2: "\<not> better b x \<Longrightarrow> \<not> better y b \<Longrightarrow> \<not> better y x"
  by (auto simp: better_def)

text \<open>The first element of the sorted list is the first element of the list over which
  no other element wins: every element before it loses to it, and no element after it
  wins over it.\<close>

lemma sort_head_first:
  assumes "xs \<noteq> []" "\<forall>m\<in>set xs. finiteConf m"
  shows "\<exists>pre post. xs = pre @ hd (Array_sort compareMatches xs) # post
           \<and> (\<forall>y\<in>set pre. better (hd (Array_sort compareMatches xs)) y)
           \<and> (\<forall>y\<in>set post. \<not> better y (hd (Array_sort compareMatches xs)))"
  using assms
proof (induction xs)
  case Nil
  then show ?case by simp
next
  case (Cons x xs)
  show ?case
  proof (cases "xs = []")
    case True
    then have "[x] = [] @ hd (Array_sort compareMatches (x # xs)) # []"
      by (simp add: Array_sort_def)
    then show ?thesis using True by fastforce
  next
    case False
    let ?b = "hd (Array_sort compareMatches xs)"
    from Cons False obtain pre post where d: "xs = pre @ ?b # post"
      "\<forall>y\<in>set pre. better ?b y" "\<forall>y\<in>set post. \<not> better y ?b"
      by auto
    have bin: "?b \<in> set xs" using d(1) by (metis in_set_conv_decomp)
    have fb: "finiteConf ?b" and fx: "finiteConf x" using Cons.prems(2) bin by auto
    have ne: "Array_sort compareMatches xs \<noteq> []" using False by (rule Array_sort_nonempty)
    have hd: "hd (Array_sort compareMatches (x # xs)) = (if better ?b x then ?b else x)"
      using ne compare_positive[OF fx fb] by (simp add: Array_sort_Cons hd_insertSorted)
    show ?thesis
    proof (cases "better ?b x")
      case True
      have "x # xs = (x # pre) @ ?b # post" using d(1) by simp
      moreover have "\<forall>y\<in>set (x # pre). better ?b y" using True d(2) by simp
      ultimately show ?thesis using d(3) hd True by metis
    next
      case nb: False
      have "\<forall>y\<in>set xs. \<not> better y x"
      proof
        fix y assume "y \<in> set xs"
        then have "y \<in> set pre \<or> y = ?b \<or> y \<in> set post" using d(1)
          by (metis Un_iff set_ConsD set_append)
        then show "\<not> better y x"
          using nb d(2,3) better_trans1 better_trans2 by blast
      qed
      then have "x # xs = [] @ x # xs \<and> (\<forall>y\<in>set []. better x y)
                 \<and> (\<forall>y\<in>set xs. \<not> better y x)"
        by simp
      then show ?thesis using hd nb by metis
    qed
  qed
qed

lemma findBestMatch_hd:
  "findBestMatch input rules context =
     (if findMatchingRules input rules context = [] then None
      else Some (hd (Array_sort compareMatches (findMatchingRules input rules context))))"
proof (cases "findMatchingRules input rules context = []")
  case True
  then show ?thesis by (simp add: findBestMatch_def)
next
  case False
  then obtain m ms where
    "Array_sort compareMatches (findMatchingRules input rules context) = m # ms"
    using Array_sort_nonempty[OF False, of compareMatches] by (meson list.exhaust)
  then show ?thesis using False by (simp add: findBestMatch_def)
qed

text \<open>What findBestMatch returns, in the list of matches.\<close>

lemma findBestMatch_position:
  assumes "findBestMatch input rules context = Some M"
  shows "\<exists>pre post. findMatchingRules input rules context = pre @ M # post
           \<and> (\<forall>y\<in>set pre. better M y) \<and> (\<forall>y\<in>set post. \<not> better y M)"
proof -
  let ?ms = "findMatchingRules input rules context"
  have ne: "?ms \<noteq> []" and M: "M = hd (Array_sort compareMatches ?ms)"
    using assms by (auto simp: findBestMatch_hd split: if_splits)
  show ?thesis
    using sort_head_first[OF ne findMatchingRules_finiteConf] M by simp
qed

section \<open>The tie scenarios of the tests\<close>

lemma eval_generic:
  "evaluateRule (js ''Projects/Test'') (folderRule ''generic'' ''Projects/*'' 1)
     (folderContext ''Projects/Test'')
   = Some \<lparr>rule = folderRule ''generic'' ''Projects/*'' 1, rm_matchType = Folder,
           matchedPattern = js ''Projects/*'', confidence = Fin (153 / 260)\<rparr>"
proof -
  have mt: "matchesPattern (js ''Projects/Test'') (js ''Projects/*'') None"
    by (simp add: matchesPattern_def regex_eval)
  have cf: "calculateMatchConfidence (js ''Projects/Test'') (js ''Projects/*'') = Fin (153 / 260)"
    by (simp add: calculateMatchConfidence_def countUnit_def jsSub_def jsDiv_def js_def)
  have ne: "js ''Projects/*'' \<noteq> []" by (simp add: js_def)
  show ?thesis
    using mt ne
    by (simp add: evaluateRule_def folderRule_def folderContext_def selectedPattern_def cf)
qed


lemma eval_specific:
  "evaluateRule (js ''Projects/Test'') (folderRule ''specific'' ''Projects/Test'' 1)
     (folderContext ''Projects/Test'')
   = Some \<lparr>rule = folderRule ''specific'' ''Projects/Test'' 1, rm_matchType = Folder,
           matchedPattern = js ''Projects/Test'', confidence = Fin 1\<rparr>"
proof -
  have mt: "matchesPattern (js ''Projects/Test'') (js ''Projects/Test'') None"
    by (simp add: matchesPattern_def regex_eval)
  have ne: "js ''Projects/Test'' \<noteq> []" by (simp add: js_def)
  show ?thesis
    using mt ne
    by (simp add: evaluateRule_def folderRule_def folderContext_def selectedPattern_def
        calculateMatchConfidence_def)
qed
section \<open>Round trip between snake_case and Title Case\<close>















lemma lower_not_space: "isLowerAZ c \<Longrightarrow> \<not> isSpace c"
  by (auto simp: isLowerAZ_def isSpace_def)

lemma upper_not_space: "isUpperAZ c \<Longrightarrow> \<not> isSpace c"
  by (auto simp: isUpperAZ_def isSpace_def)

















subsection \<open>Words of a lower-case string\<close>




lemma lower_not_sep: "isLowerAZ c \<Longrightarrow> \<not> isSep c"
  by (auto simp: isLowerAZ_def isSep_def)

lemma flush_flush: "flush [] (flush cur ws) = flush cur ws"
  by (simp add: flush_def)





















































section \<open>The pipeline scenario\<close>

lemma cool_trim: "trim coolProjectInput = coolProjectInput"
  by (simp add: coolProjectInput_def trim_def js_def isSpace_def)

lemma cool_stripEmoji: "stripEmoji coolProjectInput = js ''01 - My Cool Project!!!''"
  by (simp add: coolProjectInput_def stripEmoji_def trim_def js_def isSpace_def
      isHighSurrogate_def isLowSurrogate_def codePoint_def)

lemma cool_stripNumberPrefix:
  "stripNumberPrefix (js ''01 - My Cool Project!!!'') = js ''My Cool Project!!!''"
  by (simp add: stripNumberPrefix_def extractNumberPrefix_def trim_def regex_eval)

lemma cool_kebab:
  "applyCaseTransformToPath (js ''My Cool Project!!!'') KebabCase = js ''my-cool-project!!!''"
  by (simp add: applyCaseTransformToPath_def toKebabCase_def insertBefore_def stripLeading_def
      toLowerCase_def lowerUnit_def isUpperAZ_def isSpace_def js_def)

lemma cool_custom:
  "applyRegexTransforms (js ''my-cool-project!!!'')
     [\<lparr>pattern = jsr ''[^a-z0-9%-]'', replacement = [], flags = Some (js ''gi'')\<rparr>]
   = js ''my-cool-project''"
  by (simp add: applyRegexTransforms_def applyRegexTransform_def flagsOrDefault_def regex_eval)

lemma cool_tagChars: "stripInvalidTagChars (js ''my-cool-project'') = js ''my-cool-project''"
  by (simp add: stripInvalidTagChars_def js_def)

lemma cool_final_trim: "trim (js ''my-cool-project'') = js ''my-cool-project''"
  by (simp add: trim_def js_def isSpace_def)

text \<open>
  Claim C3. For the input \<open>coolProjectInput\<close> (the folder emoji followed by
  \<open> 01 - My Cool Project!!!\<close>) and the configuration \<open>coolProjectConfig\<close> (emoji
  \<open>strip\<close>, number prefix \<open>strip\<close>, \<open>kebab-case\<close>, and the custom transform
  \<open>[^a-z0-9\-]\<close> with flags \<open>gi\<close> and an empty replacement), \<open>folderToTag\<close> returns
  exactly \<open>my-cool-project\<close>. The lemmas above give the value after each stage, in the
  order of the pipeline: trim, emoji, number prefix, case per segment, custom regex,
  invalid tag characters, trim.
\<close>

theorem folderToTag_cool_project:
  "folderToTag coolProjectInput coolProjectConfig = js ''my-cool-project''"
  by (simp add: folderToTag_def folderToTagWith_def applyTransformPipelineWith_def
      pipelineStmts_def emojiStmt_def numberStmt_def caseStmt_def regexStmt_def tagStmt_def
      sourceStages_def coolProjectConfig_def applyEmojiHandling_def cool_trim cool_stripEmoji
      cool_stripNumberPrefix cool_kebab cool_custom cool_tagChars cool_final_trim)

section \<open>Globs compiled by globToRegex\<close>

lemma globToRegex_double_star: "globToRegex (js ''Projects/**'') = js ''^Projects/.*$''"
  by (simp add: globToRegex_def regex_eval placeholder_eval)

lemma globToRegex_single_star: "globToRegex (js ''Projects/*'') = js ''^Projects/[^/]*$''"
  by (simp add: globToRegex_def regex_eval placeholder_eval)

lemma double_star_file: "globRegexMatches (js ''Projects/**'') (js ''Projects/file.md'')"
  unfolding globRegexMatches_def globToRegex_double_star by (simp add: regex_eval)

lemma double_star_sub: "globRegexMatches (js ''Projects/**'') (js ''Projects/sub/file.md'')"
  unfolding globRegexMatches_def globToRegex_double_star by (simp add: regex_eval)

lemma double_star_deep:
  "globRegexMatches (js ''Projects/**'') (js ''Projects/sub/deep/file.md'')"
  unfolding globRegexMatches_def globToRegex_double_star by (simp add: regex_eval)

lemma single_star_file: "globRegexMatches (js ''Projects/*'') (js ''Projects/file.md'')"
  unfolding globRegexMatches_def globToRegex_single_star by (simp add: regex_eval)

lemma single_star_sub:
  "\<not> globRegexMatches (js ''Projects/*'') (js ''Projects/sub/file.md'')"
  unfolding globRegexMatches_def globToRegex_single_star by (simp add: regex_eval)

lemma single_star_deep:
  "\<not> globRegexMatches (js ''Projects/*'') (js ''Projects/sub/deep/file.md'')"
  unfolding globRegexMatches_def globToRegex_single_star by (simp add: regex_eval)

text \<open>
  Claim C5. The regular expression that \<open>globToRegex\<close> produces for \<open>Projects/**\<close>
  matches \<open>Projects/file.md\<close>, \<open>Projects/sub/file.md\<close> and
  \<open>Projects/sub/deep/file.md\<close>; the one it produces for \<open>Projects/*\<close> matches the
  first of them and neither of the other two.
\<close>

theorem globToRegex_depth_scenario:
  "globRegexMatches (js ''Projects/**'') (js ''Projects/file.md'')
   \<and> globRegexMatches (js ''Projects/**'') (js ''Projects/sub/file.md'')
   \<and> globRegexMatches (js ''Projects/**'') (js ''Projects/sub/deep/file.md'')
   \<and> globRegexMatches (js ''Projects/*'') (js ''Projects/file.md'')
   \<and> \<not> globRegexMatches (js ''Projects/*'') (js ''Projects/sub/file.md'')
   \<and> \<not> globRegexMatches (js ''Projects/*'') (js ''Projects/sub/deep/file.md'')"
  using double_star_file double_star_sub double_star_deep single_star_file single_star_sub
    single_star_deep
  by blast

section \<open>The best match\<close>

text \<open>
  Claim C1. \<open>findBestMatch\<close> returns nothing exactly when \<open>findMatchingRules\<close>
  returns the empty list. When it returns a match \<open>M\<close>, then \<open>M\<close> is one of the matches
  of \<open>findMatchingRules\<close>, no match has a lower priority number than \<open>M\<close>, and among
  the matches with the priority of \<open>M\<close> none has a higher confidence.
\<close>

theorem findBestMatch_selects_minimum:
  "(findBestMatch input rules context = None
      \<longleftrightarrow> findMatchingRules input rules context = [])
   \<and> (\<forall>M. findBestMatch input rules context = Some M \<longrightarrow>
          M \<in> set (findMatchingRules input rules context)
          \<and> (\<forall>m\<in>set (findMatchingRules input rules context).
                priority (rule M) \<le> priority (rule m)
                \<and> (priority (rule m) = priority (rule M)
                      \<longrightarrow> jsLe (confidence m) (confidence M))))"
proof (intro conjI allI impI)
  show "findBestMatch input rules context = None
          \<longleftrightarrow> findMatchingRules input rules context = []"
    by (simp add: findBestMatch_hd)
next
  fix M assume a: "findBestMatch input rules context = Some M"
  let ?ms = "findMatchingRules input rules context"
  from findBestMatch_position[OF a] obtain pre post where
    d: "?ms = pre @ M # post" "\<forall>y\<in>set pre. better M y" "\<forall>y\<in>set post. \<not> better y M"
    by blast
  show Min: "M \<in> set ?ms" using d(1) by simp
  have fin: "\<forall>m\<in>set ?ms. finiteConf m" by (rule findMatchingRules_finiteConf)
  show "\<forall>m\<in>set ?ms. priority (rule M) \<le> priority (rule m)
          \<and> (priority (rule m) = priority (rule M) \<longrightarrow> jsLe (confidence m) (confidence M))"
  proof
    fix m assume m: "m \<in> set ?ms"
    then have "m \<in> set pre \<or> m = M \<or> m \<in> set post" using d(1) by auto
    then have nb: "\<not> better m M"
      using d(2,3) better_asym better_irrefl by blast
    have fm: "finiteConf m" and fM: "finiteConf M" using fin m Min by auto
    show "priority (rule M) \<le> priority (rule m)
          \<and> (priority (rule m) = priority (rule M) \<longrightarrow> jsLe (confidence m) (confidence M))"
      using nb fm fM
      by (auto simp: better_def finiteConf_def confOf_def split: jsnum.splits)
  qed
qed

text \<open>
  Witness for C1: the tie scenario of the tests. The rules \<open>generic\<close> (\<open>Projects/*\<close>)
  and \<open>specific\<close> (\<open>Projects/Test\<close>) have priority 1 and both match \<open>Projects/Test\<close>;
  the confidences are 153/260 and 1, and \<open>specific\<close> is returned.
\<close>

theorem findBestMatch_selects_minimum_witness:
  "findMatchingRules (js ''Projects/Test'')
     [folderRule ''generic'' ''Projects/*'' 1, folderRule ''specific'' ''Projects/Test'' 1]
     (folderContext ''Projects/Test'') \<noteq> []
   \<and> (\<exists>M. findBestMatch (js ''Projects/Test'')
             [folderRule ''generic'' ''Projects/*'' 1, folderRule ''specific'' ''Projects/Test'' 1]
             (folderContext ''Projects/Test'') = Some M
          \<and> rule M = folderRule ''specific'' ''Projects/Test'' 1
          \<and> confidence M = Fin 1
          \<and> M \<in> set (findMatchingRules (js ''Projects/Test'')
                       [folderRule ''generic'' ''Projects/*'' 1,
                        folderRule ''specific'' ''Projects/Test'' 1]
                       (folderContext ''Projects/Test'')))"
proof -
  let ?rules = "[folderRule ''generic'' ''Projects/*'' 1, folderRule ''specific'' ''Projects/Test'' 1]"
  let ?S = "\<lparr>rule = folderRule ''specific'' ''Projects/Test'' 1, rm_matchType = Folder,
            matchedPattern = js ''Projects/Test'', confidence = Fin 1\<rparr>"
  have ms: "findMatchingRules (js ''Projects/Test'') ?rules (folderContext ''Projects/Test'')
            = [\<lparr>rule = folderRule ''generic'' ''Projects/*'' 1, rm_matchType = Folder,
                matchedPattern = js ''Projects/*'', confidence = Fin (153 / 260)\<rparr>, ?S]"
    by (simp add: eval_generic eval_specific)
  have best: "findBestMatch (js ''Projects/Test'') ?rules (folderContext ''Projects/Test'')
              = Some ?S"
    unfolding findBestMatch_def ms
    by (simp add: Array_sort_def compareMatches_def jsSub_def folderRule_def)
  from findBestMatch_selects_minimum
         [of "js ''Projects/Test''" ?rules "folderContext ''Projects/Test''"] best
  have "?S \<in> set (findMatchingRules (js ''Projects/Test'') ?rules
                     (folderContext ''Projects/Test''))"
    by blast
  then show ?thesis using ms best by simp
qed

section \<open>The match test of evaluateRule\<close>

lemma raw_star_matches:
  "matchesPattern (js ''Projects/Active/Test'') (js ''Projects/*'') None"
  by (simp add: matchesPattern_def regex_eval)

lemma single_star_active:
  "\<not> globRegexMatches (js ''Projects/*'') (js ''Projects/Active/Test'')"
  unfolding globRegexMatches_def globToRegex_single_star by (simp add: regex_eval)

text \<open>
  Counterexample for C2 as stated. The pattern \<open>Projects/*\<close> is a glob pattern, and the
  anchored regular expression that \<open>globToRegex\<close> produces for it does not match
  \<open>Projects/Active/Test\<close>; \<open>evaluateRule\<close> returns a match all the same, because it
  compiles the pattern as it is written (\<open>Projects\<close> followed by any number of \<open>/\<close>,
  found anywhere in the input). This is rule 1 of the test \<open>finds all matching
  rules\<close> of the repository.
\<close>

theorem evaluateRule_glob_counterexample:
  "isGlobPattern (js ''Projects/*'')
   \<and> \<not> globRegexMatches (js ''Projects/*'') (js ''Projects/Active/Test'')
   \<and> evaluateRule (js ''Projects/Active/Test'') (folderRule ''1'' ''Projects/*'' 1)
        (folderContext ''Projects/Active/Test'') \<noteq> None"
proof -
  have g: "isGlobPattern (js ''Projects/*'')"
    by (simp add: isGlobPattern_def js_def)
  have e: "evaluateRule (js ''Projects/Active/Test'') (folderRule ''1'' ''Projects/*'' 1)
             (folderContext ''Projects/Active/Test'') \<noteq> None"
    using raw_star_matches
    by (simp add: evaluateRule_def folderRule_def folderContext_def selectedPattern_def js_def)
  show ?thesis using g single_star_active e by blast
qed

text \<open>
  Claim C2, as amended. For every input, rule and context, glob pattern or not:
  \<open>evaluateRule\<close> returns a match exactly when the rule passes the guards (enabled or
  disabled rules included; direction compatible), a pattern is selected (present and not
  empty), and that pattern, compiled as it is written with no flags (no glob conversion,
  no anchoring), compiles and matches somewhere in the input. Otherwise it returns
  nothing.
\<close>

theorem evaluateRule_matches_raw_regex:
  "evaluateRule input r context \<noteq> None \<longleftrightarrow>
     (enabled r \<or> includeDisabled context = Some True)
     \<and> (case ctx_direction context of
           None \<Rightarrow> True
         | Some d \<Rightarrow> direction r = Bidirectional \<or> direction r = d)
     \<and> (\<exists>pat re. selectedPattern r context = Some pat
                  \<and> RegExp_new pat [] = Inr re \<and> RegExp_test re input)"
  by (auto simp: evaluateRule_def matchesPattern_def split: option.splits sum.splits)

section \<open>The confidence of a returned match\<close>



section \<open>Exceptions in the pipeline\<close>


text \<open>The transformers of the repository never throw: with them the \<open>catch\<close> block is
  not reached.\<close>

lemma source_never_throws:
  "snd (runStmts (pipelineStmts sourceStages config opts) r0) = None"
  by (simp add: pipelineStmts_def emojiStmt_def numberStmt_def caseStmt_def regexStmt_def
      tagStmt_def sourceStages_def split: option.splits numberMode.splits numberHandled.splits)



section \<open>Rule validation\<close>

lemma if_push: "(if c then es @ x else es) = es @ (if c then x else [])"
  by simp

lemma if_push2: "(if c then es else es @ x) = es @ (if c then [] else x)"
  by simp

lemma sum_push:
  "(case s of Inl e \<Rightarrow> es @ x e | Inr re \<Rightarrow> es)
   = es @ (case s of Inl e \<Rightarrow> x e | Inr re \<Rightarrow> [])"
  by (cases s) simp_all

lemma option_push:
  "(case p of None \<Rightarrow> es | Some q \<Rightarrow> es @ x q)
   = es @ (case p of None \<Rightarrow> [] | Some q \<Rightarrow> x q)"
  by (cases p) simp_all

lemma if_if_conj: "(if a then (if b then x else y) else y) = (if a \<and> b then x else y)"
  by simp

lemma patternError_case:
  "(case p of
      None \<Rightarrow> []
    | Some q \<Rightarrow> if q = [] then []
               else (case patternToRegex q of Inl e \<Rightarrow> [f e] | Inr re \<Rightarrow> []))
   = (case patternError p of None \<Rightarrow> [] | Some e \<Rightarrow> [f e])"
  by (simp add: patternError_def split: option.splits sum.splits)

lemma trim_Nil: "trim [] = []"
  by (simp add: trim_def)

lemma blank_iff: "(s = [] \<or> trim s = []) = (trim s = [])"
  using trim_Nil by auto

lemma validateRule_errors:
  "errors (validateRule r) =
     (if trim (rule_id r) = [] then [''Rule must have a valid ID''] else [])
     @ (if trim (rule_name r) = [] then [''Rule must have a name''] else [])
     @ (if priority r < 0 then [''Priority must be non-negative''] else [])
     @ (if (direction r = FolderToTag \<or> direction r = Bidirectional) \<and> absent (folderPattern r)
        then [''Folder-to-tag rules must have a folder pattern''] else [])
     @ (if (direction r = TagToFolder \<or> direction r = Bidirectional) \<and> absent (tagPattern r)
        then [''Tag-to-folder rules must have a tag pattern''] else [])
     @ (case patternError (folderPattern r) of
          None \<Rightarrow> []
        | Some e \<Rightarrow> [''Invalid folder pattern: '' @ errorText e])
     @ (case patternError (tagPattern r) of
          None \<Rightarrow> []
        | Some e \<Rightarrow> [''Invalid tag pattern: '' @ errorText e])"
  unfolding validateRule_def blank_iff if_push if_push2 sum_push option_push
  unfolding Let_def
  apply (simp only: ValidationResult.select_convs append_Nil append_assoc)
  apply (simp only: patternError_case if_if_conj)
  done

lemma validateRule_valid: "valid (validateRule r) = (errors (validateRule r) = [])"
  unfolding validateRule_def if_push if_push2 sum_push option_push
  unfolding Let_def
  by (simp only: ValidationResult.select_convs length_0_conv)

text \<open>
  Claim C7. The errors of \<open>validateRule\<close> are, in this order, one message for each
  condition that is violated: the id is empty or blank; the name is empty or blank; the
  priority is negative; the direction is folder-to-tag or bidirectional and the folder
  pattern is missing; the direction is tag-to-folder or bidirectional and the tag pattern
  is missing; the folder pattern, when present, fails to compile with \<open>patternToRegex\<close>;
  the tag pattern, when present, fails to compile. No condition hides another. The
  flag \<open>valid\<close> is true exactly when the list of errors is empty.
\<close>

theorem validateRule_accumulates:
  "errors (validateRule r) =
     (if trim (rule_id r) = [] then [''Rule must have a valid ID''] else [])
     @ (if trim (rule_name r) = [] then [''Rule must have a name''] else [])
     @ (if priority r < 0 then [''Priority must be non-negative''] else [])
     @ (if (direction r = FolderToTag \<or> direction r = Bidirectional) \<and> absent (folderPattern r)
        then [''Folder-to-tag rules must have a folder pattern''] else [])
     @ (if (direction r = TagToFolder \<or> direction r = Bidirectional) \<and> absent (tagPattern r)
        then [''Tag-to-folder rules must have a tag pattern''] else [])
     @ (case patternError (folderPattern r) of
          None \<Rightarrow> []
        | Some e \<Rightarrow> [''Invalid folder pattern: '' @ errorText e])
     @ (case patternError (tagPattern r) of
          None \<Rightarrow> []
        | Some e \<Rightarrow> [''Invalid tag pattern: '' @ errorText e])
   \<and> valid (validateRule r) = (errors (validateRule r) = [])"
  using validateRule_errors validateRule_valid by (rule conjI)

section \<open>Full ties\<close>



section \<open>The default flags of applyRegexTransform\<close>








end
